theory Spec2Isabelle
  imports Main "HOL-Library.Multiset" "HOL-Library.List_Lexorder" "HOL-Library.Char_ord"
begin

unbundle bit_operations_syntax

section \<open>Content hasher\<close>

text \<open>
  The source hashes with the Web Crypto API:
  \<^verbatim>\<open>crypto.subtle.digest('SHA-256', new TextEncoder().encode(content))\<close>
  and prints every byte of the digest as two lowercase hexadecimal digits.
  The digest is modelled as the SHA-256 function of FIPS 180-4 on lists of bytes, so that
  digests of concrete inputs can be computed. Bytes and 32-bit words are natural numbers,
  with the wrap-around of the 32-bit addition written out as \<open>mod 2 ^ 32\<close>.

  A JavaScript string is modelled as an Isabelle \<^typ>\<open>string\<close>: every \<^typ>\<open>char\<close>
  is one UTF-16 code unit in the range 0..255 (ASCII and Latin-1).
\<close>

type_synonym byte = nat
type_synonym u32 = nat

subsection \<open>SHA-256\<close>

definition add32 :: "u32 \<Rightarrow> u32 \<Rightarrow> u32" where
  "add32 x y = (x + y) mod 4294967296"

definition not32 :: "u32 \<Rightarrow> u32" where
  "not32 x = 4294967295 - x"

definition rotr :: "nat \<Rightarrow> u32 \<Rightarrow> u32" where
  "rotr n x = x div 2 ^ n + (x mod 2 ^ n) * 2 ^ (32 - n)"

definition shr :: "nat \<Rightarrow> u32 \<Rightarrow> u32" where
  "shr n x = x div 2 ^ n"

definition ch :: "u32 \<Rightarrow> u32 \<Rightarrow> u32 \<Rightarrow> u32" where
  "ch x y z = (x AND y) XOR (not32 x AND z)"

definition maj :: "u32 \<Rightarrow> u32 \<Rightarrow> u32 \<Rightarrow> u32" where
  "maj x y z = (x AND y) XOR (x AND z) XOR (y AND z)"

definition bsig0 :: "u32 \<Rightarrow> u32" where
  "bsig0 x = rotr 2 x XOR rotr 13 x XOR rotr 22 x"

definition bsig1 :: "u32 \<Rightarrow> u32" where
  "bsig1 x = rotr 6 x XOR rotr 11 x XOR rotr 25 x"

definition ssig0 :: "u32 \<Rightarrow> u32" where
  "ssig0 x = rotr 7 x XOR rotr 18 x XOR shr 3 x"

definition ssig1 :: "u32 \<Rightarrow> u32" where
  "ssig1 x = rotr 17 x XOR rotr 19 x XOR shr 10 x"

definition K256 :: "u32 list" where
  "K256 = [
   1116352408, 1899447441, 3049323471, 3921009573, 961987163, 1508970993, 2453635748, 2870763221,
   3624381080, 310598401, 607225278, 1426881987, 1925078388, 2162078206, 2614888103, 3248222580,
   3835390401, 4022224774, 264347078, 604807628, 770255983, 1249150122, 1555081692, 1996064986,
   2554220882, 2821834349, 2952996808, 3210313671, 3336571891, 3584528711, 113926993, 338241895,
   666307205, 773529912, 1294757372, 1396182291, 1695183700, 1986661051, 2177026350, 2456956037,
   2730485921, 2820302411, 3259730800, 3345764771, 3516065817, 3600352804, 4094571909, 275423344,
   430227734, 506948616, 659060556, 883997877, 958139571, 1322822218, 1537002063, 1747873779,
   1955562222, 2024104815, 2227730452, 2361852424, 2428436474, 2756734187, 3204031479, 3329325298]"

type_synonym sha_state = "u32 \<times> u32 \<times> u32 \<times> u32 \<times> u32 \<times> u32 \<times> u32 \<times> u32"

definition H0 :: sha_state where
  "H0 = (1779033703, 3144134277, 1013904242, 2773480762,
         1359893119, 2600822924, 528734635, 1541459225)"

text \<open>
  Padding: the byte 0x80, zero bytes up to 56 modulo 64, then the length in bits as
  eight bytes, big endian.
\<close>

fun be_bytes :: "nat \<Rightarrow> nat \<Rightarrow> byte list" where
  "be_bytes 0 n = []"
| "be_bytes (Suc k) n = be_bytes k (n div 256) @ [n mod 256]"

definition pad :: "byte list \<Rightarrow> byte list" where
  "pad m = m @ [128] @ replicate ((119 - length m mod 64) mod 64) 0
             @ be_bytes 8 (8 * length m)"

definition be_word :: "byte \<Rightarrow> byte \<Rightarrow> byte \<Rightarrow> byte \<Rightarrow> u32" where
  "be_word a b c d = ((a * 256 + b) * 256 + c) * 256 + d"

fun words_of :: "byte list \<Rightarrow> u32 list" where
  "words_of (a # b # c # d # r) = be_word a b c d # words_of r"
| "words_of _ = []"

text \<open>
  The 64 rounds of one block. The window holds sixteen words of the message schedule,
  starting at the word of the current round; every round appends the next word of the
  schedule and drops the oldest.
\<close>

type_synonym sha_window =
  "u32 \<times> u32 \<times> u32 \<times> u32 \<times> u32 \<times> u32 \<times> u32 \<times> u32 \<times>
   u32 \<times> u32 \<times> u32 \<times> u32 \<times> u32 \<times> u32 \<times> u32 \<times> u32"

definition shift_in :: "u32 \<Rightarrow> u32 \<Rightarrow> sha_state \<Rightarrow> sha_state" where
  "shift_in t1 t2 s = (case s of (a, b, c, d, e, f, g, h) \<Rightarrow>
     (add32 t1 t2, a, b, c, add32 d t1, e, f, g))"

fun round_step :: "sha_state \<Rightarrow> u32 \<Rightarrow> u32 \<Rightarrow> sha_state" where
  "round_step (a, b, c, d, e, f, g, h) k w =
     shift_in (add32 (add32 (add32 (add32 h (bsig1 e)) (ch e f g)) k) w)
              (add32 (bsig0 a) (maj a b c))
              (a, b, c, d, e, f, g, h)"

definition next_word :: "u32 \<Rightarrow> u32 \<Rightarrow> u32 \<Rightarrow> u32 \<Rightarrow> u32" where
  "next_word w14 w9 w1 w0 = add32 (add32 (add32 (ssig1 w14) w9) (ssig0 w1)) w0"

fun rounds :: "u32 list \<Rightarrow> sha_window \<Rightarrow> sha_state \<Rightarrow> sha_state" where
  "rounds [] w s = s"
| "rounds (k # ks) (w0, w1, w2, w3, w4, w5, w6, w7, w8, w9, w10, w11, w12, w13, w14, w15) s =
     rounds ks (w1, w2, w3, w4, w5, w6, w7, w8, w9, w10, w11, w12, w13, w14, w15,
                next_word w14 w9 w1 w0)
            (round_step s k w0)"

fun add_state :: "sha_state \<Rightarrow> sha_state \<Rightarrow> sha_state" where
  "add_state (a, b, c, d, e, f, g, h) (a', b', c', d', e', f', g', h') =
     (add32 a a', add32 b b', add32 c c', add32 d d',
      add32 e e', add32 f f', add32 g g', add32 h h')"

definition compress :: "sha_state \<Rightarrow> sha_window \<Rightarrow> sha_state" where
  "compress hs blk = add_state hs (rounds K256 blk hs)"

text \<open>The padded message is a whole number of blocks of sixteen words.\<close>

fun sha_blocks :: "sha_state \<Rightarrow> u32 list \<Rightarrow> sha_state" where
  "sha_blocks s (w0 # w1 # w2 # w3 # w4 # w5 # w6 # w7 # w8 # w9 # w10 # w11 # w12 # w13 # w14 # w15 # r) =
     sha_blocks (compress s (w0, w1, w2, w3, w4, w5, w6, w7, w8, w9, w10, w11, w12, w13, w14, w15)) r"
| "sha_blocks s _ = s"

definition be_bytes4 :: "u32 \<Rightarrow> byte list" where
  "be_bytes4 w = [w div 16777216, w div 65536 mod 256, w div 256 mod 256, w mod 256]"

fun state_bytes :: "sha_state \<Rightarrow> byte list" where
  "state_bytes (a, b, c, d, e, f, g, h) =
     be_bytes4 a @ be_bytes4 b @ be_bytes4 c @ be_bytes4 d @
     be_bytes4 e @ be_bytes4 f @ be_bytes4 g @ be_bytes4 h"

definition sha256 :: "byte list \<Rightarrow> byte list" where
  "sha256 m = state_bytes (sha_blocks H0 (words_of (pad m)))"

subsection \<open>UTF-8 and hexadecimal\<close>

text \<open>
  \<^verbatim>\<open>TextEncoder.encode\<close>: a code unit below 128 is one byte, a code unit in 128..255 is
  the two-byte sequence of its code point.
\<close>

definition utf8_char :: "char \<Rightarrow> byte list" where
  "utf8_char c = (let n = (of_char c :: nat) in
     if n < 128 then [n] else [192 + n div 64, 128 + n mod 64])"

definition utf8 :: "string \<Rightarrow> byte list" where
  "utf8 s = concat (map utf8_char s)"

definition hexdigit :: "nat \<Rightarrow> char" where
  "hexdigit n = ''0123456789abcdef'' ! n"

text \<open>\<^verbatim>\<open>b.toString(16).padStart(2, '0')\<close>\<close>

definition hex2 :: "byte \<Rightarrow> string" where
  "hex2 b = [hexdigit (b div 16), hexdigit (b mod 16)]"

definition hex :: "byte list \<Rightarrow> string" where
  "hex bs = concat (map hex2 bs)"

text \<open>\<^verbatim>\<open>hashContent(content)\<close>: lowercase hex of the SHA-256 digest of the UTF-8 bytes.\<close>

definition hashContent :: "string \<Rightarrow> string" where
  "hashContent content = hex (sha256 (utf8 content))"

section \<open>Merkle tree builder\<close>

subsection \<open>Data model\<close>

datatype NodeType = File | Directory

datatype ChangeType = Added | Modified | Deleted

text \<open>
  \<^verbatim>\<open>MerkleNodeJSON\<close>. The field \<^verbatim>\<open>size\<close> is the selector \<open>nsize\<close>; the optional
  \<^verbatim>\<open>children\<close> array is absent (\<open>None\<close>) on a file node.
\<close>

datatype MerkleNodeJSON = MerkleNodeJSON
  (hash: string) (nodeType: NodeType) (path: string) (nsize: int)
  (modifiedAt: int) (createdAt: int) (children: "MerkleNodeJSON list option") (isLeaf: bool)

text \<open>\<^verbatim>\<open>FileInput\<close>: \<^verbatim>\<open>{ path, content, size?, lastModified? }\<close>.\<close>

record FileInput =
  file_path :: string
  file_content :: string
  file_size :: "int option"
  file_lastModified :: "int option"

text \<open>
  \<^verbatim>\<open>NestedNode\<close>: the source only ever creates
  \<^verbatim>\<open>{ type: 'file', content, size, lastModified }\<close> and
  \<^verbatim>\<open>{ type: 'directory', children: {} }\<close>; the two shapes are the two constructors.
  The \<^verbatim>\<open>children\<close> object of a directory is the list of its own properties in the
  order in which \<^verbatim>\<open>Object.entries\<close> enumerates them.
\<close>

datatype NestedNode =
    NFile string "int option" int
  | NDir "(string \<times> NestedNode) list"

datatype error = TypeError

subsection \<open>Host functions: property order, \<^verbatim>\<open>split\<close>, \<^verbatim>\<open>sort\<close>\<close>

text \<open>
  An object enumerates its own string keys as follows: first the keys that are array
  indices (canonical decimal numerals up to \<open>2^32 - 2\<close>) in ascending numeric order, then
  all other keys in the order of their creation. Assigning to an existing key keeps its
  position. Only own properties are modelled: the path segments are assumed not to name
  a member of \<^verbatim>\<open>Object.prototype\<close> (such as \<^verbatim>\<open>constructor\<close> or \<^verbatim>\<open>__proto__\<close>).
\<close>

definition isDigit :: "char \<Rightarrow> bool" where
  "isDigit c = (48 \<le> (of_char c :: nat) \<and> (of_char c :: nat) \<le> 57)"

definition decimalValue :: "string \<Rightarrow> nat" where
  "decimalValue s = foldl (\<lambda>n c. 10 * n + (of_char c - 48)) 0 s"

definition isArrayIndex :: "string \<Rightarrow> bool" where
  "isArrayIndex s = (s \<noteq> [] \<and> list_all isDigit s \<and> (s = ''0'' \<or> hd s \<noteq> CHR ''0'')
     \<and> decimalValue s \<le> 4294967294)"

definition objGet :: "(string \<times> 'a) list \<Rightarrow> string \<Rightarrow> 'a option" where
  "objGet es k = map_of es k"

fun replaceValue :: "string \<Rightarrow> 'a \<Rightarrow> (string \<times> 'a) list \<Rightarrow> (string \<times> 'a) list" where
  "replaceValue k v [] = []"
| "replaceValue k v ((k', v') # es) =
     (if k' = k then (k, v) # es else (k', v') # replaceValue k v es)"

fun insertIndexKey :: "string \<Rightarrow> 'a \<Rightarrow> (string \<times> 'a) list \<Rightarrow> (string \<times> 'a) list" where
  "insertIndexKey k v [] = [(k, v)]"
| "insertIndexKey k v ((k', v') # es) =
     (if isArrayIndex k' \<and> decimalValue k' < decimalValue k
      then (k', v') # insertIndexKey k v es
      else (k, v) # (k', v') # es)"

definition objSet :: "(string \<times> 'a) list \<Rightarrow> string \<Rightarrow> 'a \<Rightarrow> (string \<times> 'a) list" where
  "objSet es k v =
     (if k \<in> fst ` set es then replaceValue k v es
      else if isArrayIndex k then insertIndexKey k v es
      else es @ [(k, v)])"

text \<open>\<^verbatim>\<open>s.split('/')\<close>: the segments between the separators; never the empty list.\<close>

fun split_on :: "char \<Rightarrow> string \<Rightarrow> string list" where
  "split_on c [] = [[]]"
| "split_on c (x # xs) =
     (if x = c then [] # split_on c xs
      else (case split_on c xs of [] \<Rightarrow> [[x]] | p # ps \<Rightarrow> (x # p) # ps))"

text \<open>
  \<^verbatim>\<open>xs.sort((a, b) => a.path.localeCompare(b.path))\<close>. The comparator
  \<^verbatim>\<open>String.prototype.localeCompare\<close> belongs to the host and depends on its collation; it
  is the parameter \<open>cmp\<close> of the model. \<^verbatim>\<open>Array.prototype.sort\<close> is stable: for a
  consistent comparator its result is the stable insertion sort below.
\<close>

fun insertBy :: "(string \<Rightarrow> string \<Rightarrow> int) \<Rightarrow> ('a \<Rightarrow> string) \<Rightarrow> 'a \<Rightarrow> 'a list \<Rightarrow> 'a list" where
  "insertBy cmp key x [] = [x]"
| "insertBy cmp key x (y # ys) =
     (if cmp (key x) (key y) \<le> 0 then x # y # ys else y # insertBy cmp key x ys)"

fun sortBy :: "(string \<Rightarrow> string \<Rightarrow> int) \<Rightarrow> ('a \<Rightarrow> string) \<Rightarrow> 'a list \<Rightarrow> 'a list" where
  "sortBy cmp key [] = []"
| "sortBy cmp key (x # xs) = insertBy cmp key x (sortBy cmp key xs)"

subsection \<open>The builder\<close>

text \<open>
  \<^verbatim>\<open>hashDirectory(children)\<close>, on the list of \<^verbatim>\<open>{ hash, path }\<close> records, each a pair
  \<open>(hash, path)\<close>: sorts a copy by \<^verbatim>\<open>path\<close>, then hashes the concatenation of
  \<^verbatim>\<open>c.hash + c.path\<close>.
\<close>

definition hashDirectory :: "(string \<Rightarrow> string \<Rightarrow> int) \<Rightarrow> (string \<times> string) list \<Rightarrow> string" where
  "hashDirectory cmp cs =
     (let sorted = sortBy cmp snd cs;
          combined = concat (map (\<lambda>c. fst c @ snd c) sorted)
      in hashContent combined)"

text \<open>
  \<^verbatim>\<open>buildNestedStructure\<close>. The inner loop walks \<^verbatim>\<open>current\<close> down the segments of one
  path; \<open>insertParts\<close> returns the node \<^verbatim>\<open>current\<close> after the mutation. Reading
  \<^verbatim>\<open>current.children[part]\<close> on a file node, whose \<^verbatim>\<open>children\<close> is undefined, throws a
  \<^verbatim>\<open>TypeError\<close>, and so does the assignment.
\<close>

fun insertParts :: "NestedNode \<Rightarrow> string list \<Rightarrow> NestedNode \<Rightarrow> error + NestedNode" where
  "insertParts leaf [] current = Inr current"
| "insertParts leaf [part] current =
     (case current of
        NFile c s m \<Rightarrow> Inl TypeError
      | NDir es \<Rightarrow> Inr (NDir (objSet es part leaf)))"
| "insertParts leaf (part # rest) current =
     (case current of
        NFile c s m \<Rightarrow> Inl TypeError
      | NDir es \<Rightarrow>
          (let child = (case objGet es part of None \<Rightarrow> NDir [] | Some n \<Rightarrow> n)
           in case insertParts leaf rest child of
                Inl e \<Rightarrow> Inl e
              | Inr child' \<Rightarrow> Inr (NDir (objSet es part child'))))"

text \<open>\<^verbatim>\<open>x || Date.now()\<close> on an optional number: undefined and 0 are falsy.\<close>

definition orNow :: "int option \<Rightarrow> int \<Rightarrow> int" where
  "orNow x now = (case x of None \<Rightarrow> now | Some v \<Rightarrow> if v = 0 then now else v)"

definition fileNode :: "int \<Rightarrow> FileInput \<Rightarrow> NestedNode" where
  "fileNode now f = NFile (file_content f) (file_size f) (orNow (file_lastModified f) now)"

fun buildNestedStructure_loop :: "int \<Rightarrow> FileInput list \<Rightarrow> NestedNode \<Rightarrow> error + NestedNode" where
  "buildNestedStructure_loop now [] root = Inr root"
| "buildNestedStructure_loop now (f # fs) root =
     (case insertParts (fileNode now f) (split_on CHR ''/'' (file_path f)) root of
        Inl e \<Rightarrow> Inl e
      | Inr root' \<Rightarrow> buildNestedStructure_loop now fs root')"

definition buildNestedStructure :: "int \<Rightarrow> FileInput list \<Rightarrow> error + NestedNode" where
  "buildNestedStructure now files = buildNestedStructure_loop now files (NDir [])"

text \<open>\<^verbatim>\<open>path === 'root' ? name : `${path}/${name}`\<close>\<close>

definition childPath :: "string \<Rightarrow> string \<Rightarrow> string" where
  "childPath p name = (if p = ''root'' then name else p @ ''/'' @ name)"

text \<open>
  \<^verbatim>\<open>buildTreeFromNested\<close>. Times are integers (milliseconds); \<open>now\<close> is the value of
  \<^verbatim>\<open>Date.now()\<close>, taken as constant during one build.
\<close>

fun buildTreeFromNested ::
  "(string \<Rightarrow> string \<Rightarrow> int) \<Rightarrow> int \<Rightarrow> NestedNode \<Rightarrow> string \<Rightarrow> MerkleNodeJSON" where
  "buildTreeFromNested cmp now (NFile content sz lm) p =
     MerkleNodeJSON (hashContent content) File p
       (case sz of None \<Rightarrow> int (length (utf8 content)) | Some n \<Rightarrow> n)
       (orNow (Some lm) now div 1000) (orNow (Some lm) now div 1000) None True"
| "buildTreeFromNested cmp now (NDir es) p =
     (let children = sortBy cmp path
            (map (\<lambda>e. buildTreeFromNested cmp now (snd e) (childPath p (fst e))) es);
          h = hashDirectory cmp (map (\<lambda>c. (hash c, path c)) children)
      in MerkleNodeJSON h Directory p 0 (now div 1000) (now div 1000) (Some children) False)"

definition buildTreeFromFiles ::
  "(string \<Rightarrow> string \<Rightarrow> int) \<Rightarrow> int \<Rightarrow> FileInput list \<Rightarrow> error + MerkleNodeJSON" where
  "buildTreeFromFiles cmp now files =
     (if length files = 0
      then Inr (MerkleNodeJSON (hashContent '''') Directory ''root'' 0
                  (now div 1000) (now div 1000) (Some []) False)
      else case buildNestedStructure now files of
             Inl e \<Rightarrow> Inl e
           | Inr root \<Rightarrow> Inr (buildTreeFromNested cmp now root ''root''))"

section \<open>Tree differ\<close>

record FileChange =
  changeType :: ChangeType
  change_path :: string
  oldHash :: "string option"
  newHash :: "string option"

record ChangeSummary =
  added :: nat
  modified :: nat
  deleted :: nat
  total :: nat

text \<open>The \<^verbatim>\<open>MerkleSyncResult\<close> of the tree service.\<close>

record TreeComparison =
  changes :: "FileChange list"
  summary :: ChangeSummary
  filesToProcess :: "string list"
  deletedFiles :: "string list"

text \<open>
  The collectors push onto the shared array \<^verbatim>\<open>changes\<close>; each function of the model
  returns the records it pushes, in the order of the pushes. An array is truthy even when
  it is empty, so \<^verbatim>\<open>else if (node.children)\<close> asks for the presence of the field.
\<close>

fun collectAddedRecursive :: "MerkleNodeJSON \<Rightarrow> FileChange list" where
  "collectAddedRecursive (MerkleNodeJSON h t p s m c kids leaf) =
     (if leaf
      then [\<lparr>changeType = Added, change_path = p, oldHash = None, newHash = Some h\<rparr>]
      else case kids of
             None \<Rightarrow> []
           | Some cs \<Rightarrow> concat (map collectAddedRecursive cs))"

fun collectDeletedRecursive :: "MerkleNodeJSON \<Rightarrow> FileChange list" where
  "collectDeletedRecursive (MerkleNodeJSON h t p s m c kids leaf) =
     (if leaf
      then [\<lparr>changeType = Deleted, change_path = p, oldHash = Some h, newHash = None\<rparr>]
      else case kids of
             None \<Rightarrow> []
           | Some cs \<Rightarrow> concat (map collectDeletedRecursive cs))"

text \<open>
  A \<^verbatim>\<open>Map\<close> keeps its keys in the order of their first insertion; setting a key that is
  present replaces its value in place.
\<close>

fun mapSet :: "(string \<times> 'a) list \<Rightarrow> string \<Rightarrow> 'a \<Rightarrow> (string \<times> 'a) list" where
  "mapSet [] k v = [(k, v)]"
| "mapSet ((k', v') # es) k v = (if k' = k then (k, v) # es else (k', v') # mapSet es k v)"

definition childMap :: "MerkleNodeJSON list \<Rightarrow> (string \<times> MerkleNodeJSON) list" where
  "childMap cs = foldl (\<lambda>m c. mapSet m (path c) c) [] cs"

text \<open>\<^verbatim>\<open>node.children || []\<close>\<close>

definition childrenOrEmpty :: "MerkleNodeJSON \<Rightarrow> MerkleNodeJSON list" where
  "childrenOrEmpty n = (case children n of None \<Rightarrow> [] | Some cs \<Rightarrow> cs)"

function compareTreesRecursive :: "MerkleNodeJSON \<Rightarrow> MerkleNodeJSON \<Rightarrow> FileChange list" where
  "compareTreesRecursive oldNode newNode =
     (if hash oldNode = hash newNode then []
      else if isLeaf oldNode \<and> isLeaf newNode
      then [\<lparr>changeType = Modified, change_path = path newNode,
             oldHash = Some (hash oldNode), newHash = Some (hash newNode)\<rparr>]
      else if \<not> isLeaf oldNode \<and> \<not> isLeaf newNode
      then
        (let oldMap = childMap (childrenOrEmpty oldNode);
             newMap = childMap (childrenOrEmpty newNode)
         in concat (map (\<lambda>e. if map_of newMap (fst e) = None
                               then collectDeletedRecursive (snd e) else []) oldMap)
            @ concat (map (\<lambda>e. case map_of oldMap (fst e) of
                                  Some oldChild \<Rightarrow>
                                    if hash oldChild \<noteq> hash (snd e)
                                    then compareTreesRecursive oldChild (snd e) else []
                                | None \<Rightarrow> collectAddedRecursive (snd e)) newMap))
      else collectDeletedRecursive oldNode @ collectAddedRecursive newNode)"
  by pat_completeness auto
termination
proof -
  have ins: "set (mapSet m k v) \<subseteq> insert (k, v) (set m)"
    for m :: "(string \<times> MerkleNodeJSON) list" and k v
    by (induction m) (auto split: if_splits)
  have fold_values:
    "snd ` set (foldl (\<lambda>m c. mapSet m (path c) c) m0 cs) \<subseteq> snd ` set m0 \<union> set cs"
    for m0 cs
  proof (induction cs arbitrary: m0)
    case Nil
    then show ?case by simp
  next
    case (Cons c cs)
    have "snd ` set (mapSet m0 (path c) c) \<subseteq> insert c (snd ` set m0)"
      using ins[of m0 "path c" c] by force
    with Cons[of "mapSet m0 (path c) c"] show ?case by auto
  qed
  have in_children: "snd e \<in> set cs" if "e \<in> set (childMap cs)" for e cs
    using fold_values[of "[]" cs] that by (auto simp: childMap_def)
  have smaller: "size c < size n" if "c \<in> set (childrenOrEmpty n)" for c n
  proof (cases n)
    case (MerkleNodeJSON h t p s m cr kids leaf)
    with that obtain cs where "kids = Some cs" "c \<in> set cs"
      by (auto simp: childrenOrEmpty_def split: option.splits)
    then have "size c \<le> size_list size cs"
      by (simp add: size_list_estimation')
    with MerkleNodeJSON \<open>kids = Some cs\<close> show ?thesis by simp
  qed
  show ?thesis
    by (relation "measure (\<lambda>(oldNode, newNode). size newNode)")
       (auto dest!: in_children smaller)
qed

declare compareTreesRecursive.simps [simp del]

definition summarizeChanges :: "FileChange list \<Rightarrow> ChangeSummary" where
  "summarizeChanges cs =
     (let a = length (filter (\<lambda>c. changeType c = Added) cs);
          m = length (filter (\<lambda>c. changeType c = Modified) cs);
          d = length (filter (\<lambda>c. changeType c = Deleted) cs)
      in \<lparr>added = a, modified = m, deleted = d, total = a + m + d\<rparr>)"

definition getFilesToProcess :: "FileChange list \<Rightarrow> string list" where
  "getFilesToProcess cs =
     map change_path (filter (\<lambda>c. changeType c = Added \<or> changeType c = Modified) cs)"

definition compareTrees :: "MerkleNodeJSON option \<Rightarrow> MerkleNodeJSON \<Rightarrow> TreeComparison" where
  "compareTrees oldTree newTree =
     (let cs = (case oldTree of
                  None \<Rightarrow> collectAddedRecursive newTree
                | Some old \<Rightarrow>
                    if hash old = hash newTree then []
                    else compareTreesRecursive old newTree)
      in \<lparr>changes = cs, summary = summarizeChanges cs, filesToProcess = getFilesToProcess cs,
          deletedFiles = map change_path (filter (\<lambda>c. changeType c = Deleted) cs)\<rparr>)"

section \<open>Sync orchestrator\<close>

subsection \<open>State, requests and events\<close>

datatype IngestionStatus = Pending | Processing | Completed | Failed

record LocalProjectInfo =
  projectId :: string
  localHash :: string
  folderName :: string
  folderPath :: string
  ingestionStatus :: IngestionStatus
  totalFiles :: int
  processedFiles :: int
  totalChunks :: int
  project_error :: "string option"

record Progress =
  progress_total :: int
  progress_processed :: int
  progress_chunks :: int
  progress_percent :: int

record IngestionProgress =
  ip_projectId :: string
  ip_status :: IngestionStatus
  ip_progress :: Progress

text \<open>The fields of \<^verbatim>\<open>LocalIngestionServiceImpl\<close>.\<close>

record service_state =
  currentProject :: "LocalProjectInfo option"
  currentMerkleTree :: "MerkleNodeJSON option"
  backendUrl :: string
  authToken :: string
  initialized :: bool

definition initialState :: service_state where
  "initialState = \<lparr>currentProject = None, currentMerkleTree = None,
     backendUrl = '''', authToken = '''', initialized = False\<rparr>"

text \<open>
  What the service does to the outside, in order: the HTTP requests it issues and the
  events it fires. \<open>SpawnPoll\<close> marks the start of \<^verbatim>\<open>pollIngestionProgress\<close>, which
  the caller does not await and which runs on timers of the host.
\<close>

datatype effect =
    HttpCheck string string
  | HttpCreate string string
  | HttpInit string int MerkleNodeJSON
  | HttpFiles string "FileInput list" nat nat
  | HttpMerkleSync string MerkleNodeJSON "(string \<times> string) list option"
  | FireProjectChanged "LocalProjectInfo option"
  | FireIngestionProgress IngestionProgress
  | FireIngestionComplete LocalProjectInfo
  | FireIngestionError string string
  | SpawnPoll string

text \<open>
  The answer to a \<^verbatim>\<open>fetch\<close>: the promise rejects with a message, or it resolves to a
  response with a status, a status text, the body as \<^verbatim>\<open>response.json()\<close> gives it
  (or the message with which that rejects), and the \<^verbatim>\<open>error\<close> member of the body, if any.
\<close>

datatype 'a body = Unparsable string | Parsed 'a

datatype 'a response = Rejected string | Response nat string "'a body" "string option"

definition ok :: "nat \<Rightarrow> bool" where
  "ok status = (200 \<le> status \<and> status \<le> 299)"

text \<open>\<^verbatim>\<open>errorData.error || response.statusText\<close>\<close>

definition errorOrStatusText :: "string option \<Rightarrow> string \<Rightarrow> string" where
  "errorOrStatusText e statusText =
     (case e of None \<Rightarrow> statusText | Some m \<Rightarrow> if m = [] then statusText else m)"

record CheckBody =
  check_exists :: bool
  check_project :: "LocalProjectInfo option"

record CreateBody =
  create_projectId :: string
  create_localHash :: string

record FilesBody =
  totalProcessed :: int
  files_totalChunks :: int
  isComplete :: bool

record Phase1Body =
  phase1_changes :: "(string \<times> string) list option"
  phase1_summary :: "ChangeSummary option"
  needsFiles :: "string list option"

record Phase2Body =
  phase2_changes :: "(string \<times> string) list option"
  phase2_summary :: "ChangeSummary option"
  phase2_filesProcessed :: "int option"
  phase2_filesDeleted :: "int option"

text \<open>The \<^verbatim>\<open>MerkleSyncResult\<close> of the ingestion service.\<close>

record SyncResult =
  success :: bool
  sync_changes :: "(string \<times> string) list option"
  sync_summary :: "ChangeSummary option"
  filesProcessed :: "int option"
  filesDeleted :: "int option"
  sync_error :: "string option"

text \<open>
  The collaborators of the service. \<open>env_collectFiles\<close> is the result of
  \<^verbatim>\<open>collectFiles(folderUri)\<close> (which never throws): for every file its relative path, its
  size and what \<^verbatim>\<open>fileService.read\<close> returns for it (\<open>None\<close> when the read throws).
  \<open>env_localeCompare\<close> is the comparator of the host and \<open>env_now\<close> its clock.
\<close>

record env =
  env_now :: int
  env_localeCompare :: "string \<Rightarrow> string \<Rightarrow> int"
  env_roots :: "string list"
  env_collectFiles :: "string \<Rightarrow> (string \<times> int \<times> string option) list"
  env_check :: "string \<Rightarrow> string \<Rightarrow> CheckBody response"
  env_create :: "string \<Rightarrow> string \<Rightarrow> CreateBody response"
  env_init :: "string \<Rightarrow> unit response"
  env_files :: "string \<Rightarrow> nat \<Rightarrow> FilesBody response"
  env_sync1 :: "string \<Rightarrow> MerkleNodeJSON \<Rightarrow> Phase1Body response"
  env_sync2 :: "string \<Rightarrow> MerkleNodeJSON \<Rightarrow> (string \<times> string) list \<Rightarrow> Phase2Body response"

text \<open>The message of the \<^verbatim>\<open>TypeError\<close> a failed build throws; its text is the host's.\<close>

definition errorMessage :: "error \<Rightarrow> string" where
  "errorMessage e = ''TypeError''"

subsection \<open>\<^verbatim>\<open>checkProjectExists\<close> and \<^verbatim>\<open>createProject\<close>\<close>

definition checkProjectExists :: "env \<Rightarrow> string \<Rightarrow> string \<Rightarrow> LocalProjectInfo option" where
  "checkProjectExists e fPath fName =
     (case env_check e fPath fName of
        Rejected msg \<Rightarrow> None
      | Response status statusText b err \<Rightarrow>
          if \<not> ok status then None
          else case b of
                 Unparsable msg \<Rightarrow> None
               | Parsed d \<Rightarrow>
                   if \<not> check_exists d then None
                   else case check_project d of
                          None \<Rightarrow> None
                        | Some p \<Rightarrow> Some (p\<lparr>project_error := None\<rparr>))"

definition createProject :: "env \<Rightarrow> string \<Rightarrow> string \<Rightarrow> LocalProjectInfo option" where
  "createProject e fPath fName =
     (case env_create e fPath fName of
        Rejected msg \<Rightarrow> None
      | Response status statusText b err \<Rightarrow>
          if \<not> ok status then None
          else case b of
                 Unparsable msg \<Rightarrow> None
               | Parsed d \<Rightarrow>
                   Some \<lparr>projectId = create_projectId d, localHash = create_localHash d,
                         folderName = fName, folderPath = fPath, ingestionStatus = Pending,
                         totalFiles = 0, processedFiles = 0, totalChunks = 0,
                         project_error = None\<rparr>)"

subsection \<open>\<^verbatim>\<open>startIngestion\<close>\<close>

text \<open>The files that could be read, as \<^verbatim>\<open>startIngestion\<close> builds them.\<close>

fun readForIngestion :: "int \<Rightarrow> (string \<times> int \<times> string option) list \<Rightarrow> FileInput list" where
  "readForIngestion t [] = []"
| "readForIngestion t ((p, sz, None) # fs) = readForIngestion t fs"
| "readForIngestion t ((p, sz, Some c) # fs) =
     \<lparr>file_path = p, file_content = c, file_size = Some sz, file_lastModified = Some t\<rparr>
       # readForIngestion t fs"

text \<open>
  \<^verbatim>\<open>Math.round((totalProcessed / n) * 100)\<close>, computed exactly on integers
  (rounding half up); \<open>n\<close> is the positive number of files.
\<close>

definition percentOf :: "int \<Rightarrow> int \<Rightarrow> int" where
  "percentOf processed n = (200 * processed + n) div (2 * n)"

text \<open>
  \<^verbatim>\<open>{ ...this._currentProject!, ingestionStatus: 'completed', processedFiles, totalChunks }\<close>.
  When there is no current project the spread contributes nothing; the absent fields
  are then empty strings and zero.
\<close>

definition completedProject :: "LocalProjectInfo option \<Rightarrow> int \<Rightarrow> int \<Rightarrow> LocalProjectInfo" where
  "completedProject cur processed chunks =
     (case cur of
        Some p \<Rightarrow> p\<lparr>ingestionStatus := Completed, processedFiles := processed,
                     totalChunks := chunks\<rparr>
      | None \<Rightarrow> \<lparr>projectId = '''', localHash = '''', folderName = '''', folderPath = '''',
                  ingestionStatus = Completed, totalFiles = 0, processedFiles = processed,
                  totalChunks = chunks, project_error = None\<rparr>)"

text \<open>
  The loop over the batches: \<open>i\<close> is the index of the first file of the batch,
  \<open>all\<close> the files with content. A rejected \<^verbatim>\<open>fetch\<close> and an unparsable body of an
  accepted batch throw, which leaves the loop for the \<^verbatim>\<open>catch\<close> of \<^verbatim>\<open>startIngestion\<close>;
  a response that is not ok is logged and the loop goes on.
\<close>

function sendBatches ::
  "env \<Rightarrow> string \<Rightarrow> FileInput list \<Rightarrow> nat \<Rightarrow> service_state \<Rightarrow> service_state \<times> effect list" where
  "sendBatches e pid all i s =
     (if length all \<le> i then (s, [])
      else
        (let batchSize = 20;
             totalBatches = (length all + batchSize - 1) div batchSize;
             batch = take batchSize (drop i all);
             batchIndex = i div batchSize;
             request = HttpFiles pid batch batchIndex totalBatches
         in case env_files e pid batchIndex of
              Rejected msg \<Rightarrow> (s, [request, FireIngestionError pid msg])
            | Response status statusText b err \<Rightarrow>
                if ok status then
                  (case b of
                     Unparsable msg \<Rightarrow> (s, [request, FireIngestionError pid msg])
                   | Parsed r \<Rightarrow>
                       (let progress = FireIngestionProgress
                              \<lparr>ip_projectId = pid,
                               ip_status = (if isComplete r then Completed else Processing),
                               ip_progress =
                                 \<lparr>progress_total = int (length all),
                                  progress_processed = totalProcessed r,
                                  progress_chunks = files_totalChunks r,
                                  progress_percent =
                                    percentOf (totalProcessed r) (int (length all))\<rparr>\<rparr>;
                            done = completedProject (currentProject s)
                                     (totalProcessed r) (files_totalChunks r);
                            s' = (if isComplete r then s\<lparr>currentProject := Some done\<rparr> else s);
                            fired = (if isComplete r
                                     then [progress, FireIngestionComplete done] else [progress])
                        in case sendBatches e pid all (i + 20) s' of
                             (s'', rest) \<Rightarrow> (s'', request # fired @ rest)))
                else
                  (case sendBatches e pid all (i + 20) s of
                     (s'', rest) \<Rightarrow> (s'', request # rest))))"
  by pat_completeness auto
termination
  by (relation "measure (\<lambda>(e, pid, all, i, s). length all - i)") auto

declare sendBatches.simps [simp del]

definition startIngestion ::
  "env \<Rightarrow> string \<Rightarrow> string \<Rightarrow> service_state \<Rightarrow> service_state \<times> effect list" where
  "startIngestion e pid folderUri s =
     (let files = env_collectFiles e folderUri
      in if length files = 0 then (s, [])
         else
           (let filesWithContent = readForIngestion (env_now e) files
            in if length filesWithContent = 0 then (s, [])
               else case buildTreeFromFiles (env_localeCompare e) (env_now e) filesWithContent of
                      Inl err \<Rightarrow> (s, [FireIngestionError pid (errorMessage err)])
                    | Inr merkleTree \<Rightarrow>
                        (let s1 = s\<lparr>currentMerkleTree := Some merkleTree\<rparr>;
                             request = HttpInit pid (int (length filesWithContent)) merkleTree
                         in case env_init e pid of
                              Rejected msg \<Rightarrow> (s1, [request, FireIngestionError pid msg])
                            | Response status statusText b err \<Rightarrow>
                                (case sendBatches e pid filesWithContent 0 s1 of
                                   (s2, effs) \<Rightarrow> (s2, request # effs)))))"

subsection \<open>\<^verbatim>\<open>syncWithMerkle\<close>\<close>

fun readForSync :: "(string \<times> int \<times> string option) list \<Rightarrow> FileInput list" where
  "readForSync [] = []"
| "readForSync ((p, sz, None) # fs) = readForSync fs"
| "readForSync ((p, sz, Some c) # fs) =
     \<lparr>file_path = p, file_content = c, file_size = Some sz, file_lastModified = None\<rparr>
       # readForSync fs"

text \<open>\<^verbatim>\<open>fileContentMap\<close>: the content of every file that could be read, by path.\<close>

definition fileContentMap :: "FileInput list \<Rightarrow> (string \<times> string) list" where
  "fileContentMap fs = foldl (\<lambda>m f. mapSet m (file_path f) (file_content f)) [] fs"

text \<open>\<^verbatim>\<open>changedFiles\<close>: the requested paths that are in the content map.\<close>

definition changedFilesOf :: "(string \<times> string) list \<Rightarrow> string list \<Rightarrow> (string \<times> string) list" where
  "changedFilesOf contents needed =
     foldl (\<lambda>obj p. case map_of contents p of None \<Rightarrow> obj | Some c \<Rightarrow> objSet obj p c) [] needed"

definition syncFailure :: "string \<Rightarrow> SyncResult" where
  "syncFailure msg = \<lparr>success = False, sync_changes = None, sync_summary = None,
     filesProcessed = None, filesDeleted = None, sync_error = Some msg\<rparr>"

text \<open>\<^verbatim>\<open>syncResult.summary?.deleted || 0\<close>\<close>

definition deletedOrZero :: "ChangeSummary option \<Rightarrow> int" where
  "deletedOrZero sm = (case sm of None \<Rightarrow> 0 | Some x \<Rightarrow> int (deleted x))"

definition syncWithMerkle ::
  "env \<Rightarrow> string \<Rightarrow> string \<Rightarrow> service_state \<Rightarrow> SyncResult \<times> service_state \<times> effect list" where
  "syncWithMerkle e pid folderUri s =
     (let files = env_collectFiles e folderUri
      in if length files = 0
         then (\<lparr>success = True, sync_changes = None,
                 sync_summary = Some \<lparr>added = 0, modified = 0, deleted = 0, total = 0\<rparr>,
                 filesProcessed = None, filesDeleted = None, sync_error = None\<rparr>, s, [])
         else
           (let filesWithContent = readForSync files;
                contents = fileContentMap filesWithContent
            in case buildTreeFromFiles (env_localeCompare e) (env_now e) filesWithContent of
                 Inl err \<Rightarrow> (syncFailure (errorMessage err), s, [])
               | Inr newMerkleTree \<Rightarrow>
                   (let phase1 = HttpMerkleSync pid newMerkleTree None
                    in case env_sync1 e pid newMerkleTree of
                         Rejected msg \<Rightarrow> (syncFailure msg, s, [phase1])
                       | Response status statusText b err \<Rightarrow>
                           if \<not> ok status
                           then (syncFailure (errorOrStatusText err statusText), s, [phase1])
                           else case b of
                             Unparsable msg \<Rightarrow> (syncFailure msg, s, [phase1])
                           | Parsed r \<Rightarrow>
                               if needsFiles r = None \<or> needsFiles r = Some []
                               then (\<lparr>success = True, sync_changes = phase1_changes r,
                                       sync_summary = phase1_summary r,
                                       filesProcessed = Some 0,
                                       filesDeleted = Some (deletedOrZero (phase1_summary r)),
                                       sync_error = None\<rparr>,
                                     s\<lparr>currentMerkleTree := Some newMerkleTree\<rparr>, [phase1])
                               else
                                 (let changedFiles = changedFilesOf contents
                                        (case needsFiles r of None \<Rightarrow> [] | Some ps \<Rightarrow> ps);
                                      phase2 = HttpMerkleSync pid newMerkleTree (Some changedFiles)
                                  in case env_sync2 e pid newMerkleTree changedFiles of
                                       Rejected msg \<Rightarrow> (syncFailure msg, s, [phase1, phase2])
                                     | Response status2 statusText2 b2 err2 \<Rightarrow>
                                         if \<not> ok status2
                                         then (syncFailure (errorOrStatusText err2 statusText2),
                                               s, [phase1, phase2])
                                         else case b2 of
                                           Unparsable msg \<Rightarrow>
                                             (syncFailure msg, s, [phase1, phase2])
                                         | Parsed c \<Rightarrow>
                                             (\<lparr>success = True, sync_changes = phase2_changes c,
                                               sync_summary = phase2_summary c,
                                               filesProcessed = phase2_filesProcessed c,
                                               filesDeleted = phase2_filesDeleted c,
                                               sync_error = None\<rparr>,
                                              s\<lparr>currentMerkleTree := Some newMerkleTree\<rparr>,
                                              [phase1, phase2])))))"

subsection \<open>\<^verbatim>\<open>ingestFolder\<close>, \<^verbatim>\<open>checkAndIngestWorkspace\<close>, \<^verbatim>\<open>initialize\<close>\<close>

text \<open>
  A folder URI is its path; \<^verbatim>\<open>folderUri.path.base\<close> is the last segment of the path.
\<close>

definition pathBase :: "string \<Rightarrow> string" where
  "pathBase p = last (split_on CHR ''/'' p)"

text \<open>
  The result is the returned project (\<open>None\<close> for \<^verbatim>\<open>undefined\<close>), the state of the
  service afterwards and what the call did, in order.
\<close>

definition ingestFolder ::
  "env \<Rightarrow> string \<Rightarrow> service_state \<Rightarrow> LocalProjectInfo option \<times> service_state \<times> effect list" where
  "ingestFolder e folderUri s =
     (if \<not> initialized s then (None, s, [])
      else
        (let fPath = folderUri; fName = pathBase folderUri; checked = HttpCheck fPath fName
         in case checkProjectExists e fPath fName of
              Some existingProject \<Rightarrow>
                (let s1 = s\<lparr>currentProject := Some existingProject\<rparr>;
                     effs = [checked, FireProjectChanged (Some existingProject)]
                 in if ingestionStatus existingProject = Completed
                    then (case syncWithMerkle e (projectId existingProject) folderUri s1 of
                            (r, s2, effs2) \<Rightarrow> (Some existingProject, s2, effs @ effs2))
                    else if ingestionStatus existingProject = Processing
                    then (Some existingProject, s1, effs @ [SpawnPoll (projectId existingProject)])
                    else (Some existingProject, s1, effs))
            | None \<Rightarrow>
                (let created = HttpCreate fPath fName
                 in case createProject e fPath fName of
                      None \<Rightarrow> (None, s, [checked, created])
                    | Some newProject \<Rightarrow>
                        (let s1 = s\<lparr>currentProject := Some newProject\<rparr>
                         in case startIngestion e (projectId newProject) folderUri s1 of
                              (s2, effs2) \<Rightarrow>
                                (Some newProject, s2,
                                 [checked, created, FireProjectChanged (Some newProject)] @ effs2)))))"

definition checkAndIngestWorkspace ::
  "env \<Rightarrow> service_state \<Rightarrow> LocalProjectInfo option \<times> service_state \<times> effect list" where
  "checkAndIngestWorkspace e s =
     (case env_roots e of
        [] \<Rightarrow> (None, s\<lparr>currentProject := None\<rparr>, [FireProjectChanged None])
      | root # others \<Rightarrow> ingestFolder e root s)"

definition initialize ::
  "env \<Rightarrow> string \<Rightarrow> string \<Rightarrow> service_state \<Rightarrow> service_state \<times> effect list" where
  "initialize e url token s =
     (case checkAndIngestWorkspace e
             (s\<lparr>backendUrl := url, authToken := token, initialized := True\<rparr>) of
        (r, s', effs) \<Rightarrow> (s', effs))"

section \<open>Chat session gateway\<close>

subsection \<open>Availability\<close>

text \<open>
  The two subscriptions of \<^verbatim>\<open>BackendChatServiceImpl.init\<close>. The state is the flag
  \<^verbatim>\<open>_isAvailable\<close>; a handler returns the new flag and the values it fires on
  \<^verbatim>\<open>onAvailabilityChanged\<close>.
\<close>

datatype notification =
    ProjectChanged "LocalProjectInfo option"
  | IngestionComplete LocalProjectInfo

fun handleNotification :: "bool \<Rightarrow> notification \<Rightarrow> bool \<times> bool list" where
  "handleNotification isAvailable (ProjectChanged project) =
     (let wasAvailable = isAvailable;
          isAvailable' = (case project of
                            None \<Rightarrow> False
                          | Some p \<Rightarrow> ingestionStatus p = Completed)
      in (isAvailable', if wasAvailable \<noteq> isAvailable' then [isAvailable'] else []))"
| "handleNotification isAvailable (IngestionComplete project) = (True, [True])"

fun runGateway :: "bool \<Rightarrow> notification list \<Rightarrow> bool \<times> bool list" where
  "runGateway isAvailable [] = (isAvailable, [])"
| "runGateway isAvailable (n # ns) =
     (case handleNotification isAvailable n of
        (a, fired) \<Rightarrow> (case runGateway a ns of (a', rest) \<Rightarrow> (a', fired @ rest)))"

text \<open>
  Firing only on edges: no fired value equals the value reported before it; before the
  first event the reported availability is the initial \<^verbatim>\<open>false\<close>.
\<close>

fun edgesOnly :: "bool \<Rightarrow> bool list \<Rightarrow> bool" where
  "edgesOnly lastReported [] = True"
| "edgesOnly lastReported (v # vs) = (v \<noteq> lastReported \<and> edgesOnly v vs)"

subsection \<open>\<^verbatim>\<open>sendMessageStream\<close>\<close>

text \<open>
  The events on \<^verbatim>\<open>onStreamEvent\<close>: a parsed \<^verbatim>\<open>data:\<close> line relayed as it is, or an
  event of type \<^verbatim>\<open>error\<close> made by the client. \<^verbatim>\<open>JSON.parse\<close> is the parameter
  \<open>parse\<close> (\<open>None\<close> when it throws). A chunk is the text \<^verbatim>\<open>decoder.decode\<close> returns for
  it; the stream ends with \<^verbatim>\<open>done\<close> or with a read that rejects.
\<close>

datatype 'j stream_event = Relayed 'j | ErrorEvent string

datatype stream_end = StreamDone | ReadFailed string

datatype stream_response =
    FetchRejected string
  | StreamResponse nat string "(string list \<times> stream_end) option"

definition startsWith :: "string \<Rightarrow> string \<Rightarrow> bool" where
  "startsWith s p = (take (length p) s = p)"

definition processLine :: "(string \<Rightarrow> 'j option) \<Rightarrow> string \<Rightarrow> 'j stream_event list" where
  "processLine parse line =
     (if startsWith line ''data: ''
      then (case parse (drop 6 line) of Some d \<Rightarrow> [Relayed d] | None \<Rightarrow> [])
      else [])"

text \<open>
  One chunk: the lines complete so far are processed, the last segment stays in the
  buffer (\<^verbatim>\<open>lines.pop() || ''\<close>).
\<close>

fun readChunks :: "(string \<Rightarrow> 'j option) \<Rightarrow> string \<Rightarrow> string list \<Rightarrow> 'j stream_event list" where
  "readChunks parse buffer [] = []"
| "readChunks parse buffer (chunk # chunks) =
     (let lines = split_on CHR 0x0A (buffer @ chunk)
      in concat (map (processLine parse) (butlast lines))
         @ readChunks parse (last lines) chunks)"

definition sendMessageStream ::
  "(string \<Rightarrow> 'j option) \<Rightarrow> bool \<Rightarrow> stream_response \<Rightarrow> 'j stream_event list" where
  "sendMessageStream parse isAvailable resp =
     (if \<not> isAvailable
      then [ErrorEvent ''Backend chat not available. Workspace needs to be ingested first.'']
      else case resp of
             FetchRejected msg \<Rightarrow> [ErrorEvent msg]
           | StreamResponse status statusText b \<Rightarrow>
               if \<not> ok status then [ErrorEvent (''Request failed: '' @ statusText)]
               else case b of
                      None \<Rightarrow> [ErrorEvent ''No response body'']
                    | Some (chunks, ending) \<Rightarrow>
                        readChunks parse [] chunks
                        @ (case ending of StreamDone \<Rightarrow> [] | ReadFailed msg \<Rightarrow> [ErrorEvent msg]))"

section \<open>Observations and example inputs\<close>

subsection \<open>Reading a trace\<close>

fun firedComplete :: "effect list \<Rightarrow> LocalProjectInfo list" where
  "firedComplete [] = []"
| "firedComplete (FireIngestionComplete p # effs) = p # firedComplete effs"
| "firedComplete (eff # effs) = firedComplete effs"

fun firedErrors :: "effect list \<Rightarrow> (string \<times> string) list" where
  "firedErrors [] = []"
| "firedErrors (FireIngestionError pid msg # effs) = (pid, msg) # firedErrors effs"
| "firedErrors (eff # effs) = firedErrors effs"

text \<open>The batch indices of the requests to the \<^verbatim>\<open>/files\<close> endpoint, in order.\<close>

fun postedBatches :: "effect list \<Rightarrow> nat list" where
  "postedBatches [] = []"
| "postedBatches (HttpFiles pid batch idx n # effs) = idx # postedBatches effs"
| "postedBatches (eff # effs) = postedBatches effs"

text \<open>The phase-2 requests: merkle-sync requests that carry files.\<close>

fun phase2Requests :: "effect list \<Rightarrow> (string \<times> string) list list" where
  "phase2Requests [] = []"
| "phase2Requests (HttpMerkleSync pid t (Some fs) # effs) = fs # phase2Requests effs"
| "phase2Requests (eff # effs) = phase2Requests effs"

fun isErrorEvent :: "'j stream_event \<Rightarrow> bool" where
  "isErrorEvent (ErrorEvent msg) = True"
| "isErrorEvent (Relayed d) = False"

text \<open>
  The ways a stream request fails in transport: the \<^verbatim>\<open>fetch\<close> rejects, the status is
  not ok, the response has no body, or a read of the body rejects.
\<close>

fun transportFailure :: "stream_response \<Rightarrow> bool" where
  "transportFailure (FetchRejected msg) = True"
| "transportFailure (StreamResponse status statusText None) = True"
| "transportFailure (StreamResponse status statusText (Some (chunks, ReadFailed msg))) = True"
| "transportFailure (StreamResponse status statusText (Some (chunks, StreamDone))) = (\<not> ok status)"

subsection \<open>Comparators\<close>

text \<open>
  The comparison of strings by UTF-16 code units (the order of \<^verbatim>\<open><\<close> on JavaScript
  strings), as a comparator.
\<close>

definition codeUnitCompare :: "string \<Rightarrow> string \<Rightarrow> int" where
  "codeUnitCompare a b = (if a < b then - 1 else if a = b then 0 else 1)"

text \<open>
  A model of \<^verbatim>\<open>localeCompare\<close> on strings of ASCII letters, where the collations of
  the hosts agree: alphabetical order without regard to case; strings that differ in
  case only are ordered by their first difference, the lowercase letter first.
\<close>

definition toLower :: "char \<Rightarrow> char" where
  "toLower c =
     (case map_of (zip ''ABCDEFGHIJKLMNOPQRSTUVWXYZ'' ''abcdefghijklmnopqrstuvwxyz'') c of
        Some l \<Rightarrow> l
      | None \<Rightarrow> c)"

definition caseFoldCompare :: "string \<Rightarrow> string \<Rightarrow> int" where
  "caseFoldCompare a b =
     (if map toLower a < map toLower b then - 1
      else if map toLower b < map toLower a then 1
      else codeUnitCompare b a)"

text \<open>
  What a sort needs of its comparator: any two strings are comparable, and the order is
  transitive. A total order moreover tells any two different strings apart.
\<close>

definition consistentComparator :: "(string \<Rightarrow> string \<Rightarrow> int) \<Rightarrow> bool" where
  "consistentComparator cmp =
     ((\<forall>a b. cmp a b \<le> 0 \<or> cmp b a \<le> 0) \<and>
      (\<forall>a b c. cmp a b \<le> 0 \<and> cmp b c \<le> 0 \<longrightarrow> cmp a c \<le> 0))"

definition totalOrderComparator :: "(string \<Rightarrow> string \<Rightarrow> int) \<Rightarrow> bool" where
  "totalOrderComparator cmp =
     (consistentComparator cmp \<and> (\<forall>a b. cmp a b \<le> 0 \<and> cmp b a \<le> 0 \<longrightarrow> a = b))"

subsection \<open>Example inputs\<close>

definition exampleProject :: LocalProjectInfo where
  "exampleProject = \<lparr>projectId = ''p1'', localHash = ''h1'', folderName = ''proj'',
     folderPath = ''/home/u/proj'', ingestionStatus = Completed, totalFiles = 1,
     processedFiles = 1, totalChunks = 3, project_error = None\<rparr>"

text \<open>
  A folder with the one file \<^verbatim>\<open>a.txt\<close>; the server knows the project, answers phase 1 of
  a sync with two deletions and no file to send, and rejects every batch with status 500.
\<close>

definition exampleEnv :: env where
  "exampleEnv = \<lparr>
     env_now = 1700000000000,
     env_localeCompare = caseFoldCompare,
     env_roots = [''/home/u/proj''],
     env_collectFiles = (\<lambda>uri. [(''a.txt'', 5, Some ''hello'')]),
     env_check = (\<lambda>p n. Response 200 ''OK''
        (Parsed \<lparr>check_exists = True, check_project = Some exampleProject\<rparr>) None),
     env_create = (\<lambda>p n. Response 200 ''OK''
        (Parsed \<lparr>create_projectId = ''p2'', create_localHash = ''h2''\<rparr>) None),
     env_init = (\<lambda>pid. Response 200 ''OK'' (Parsed ()) None),
     env_files = (\<lambda>pid idx. Response 500 ''Internal Server Error''
        (Unparsable ''Unexpected end of JSON input'') None),
     env_sync1 = (\<lambda>pid t. Response 200 ''OK''
        (Parsed \<lparr>phase1_changes = None,
                 phase1_summary = Some \<lparr>added = 0, modified = 0, deleted = 2, total = 2\<rparr>,
                 needsFiles = Some []\<rparr>) None),
     env_sync2 = (\<lambda>pid t fs. Rejected ''Failed to fetch'')\<rparr>"

definition exampleTree :: MerkleNodeJSON where
  "exampleTree =
     MerkleNodeJSON (hashContent (hashContent ''hello'' @ ''a.txt'')) Directory ''root'' 0
       1700000000 1700000000
       (Some [MerkleNodeJSON (hashContent ''hello'') File ''a.txt'' 5
                1700000000 1700000000 None True])
       False"

text \<open>
  The answers of \<^verbatim>\<open>JSON.parse\<close> on the two texts of the examples: \<^verbatim>\<open>true\<close> is JSON,
  \<^verbatim>\<open>{oops\<close> is not.
\<close>

definition parseExample :: "string \<Rightarrow> string option" where
  "parseExample s = (if s = ''true'' then Some ''true'' else None)"

text \<open>A batch response that lets the loop go on: it resolves, and parses when it is ok.\<close>

fun resolves :: "'a response \<Rightarrow> bool" where
  "resolves (Rejected msg) = False"
| "resolves (Response status statusText (Parsed r) err) = True"
| "resolves (Response status statusText (Unparsable msg) err) = (\<not> ok status)"

definition readyState :: service_state where
  "readyState = \<lparr>currentProject = Some exampleProject, currentMerkleTree = None,
     backendUrl = ''http://localhost:3001'', authToken = ''dev-token'', initialized = True\<rparr>"

section \<open>Evaluating the hash\<close>

lemma add32_eval:
  "add32 x y = (if x + y < 4294967296 then x + y
     else if x + y - 4294967296 < 4294967296 then x + y - 4294967296
     else (x + y) mod 4294967296)"
  by (auto simp: add32_def mod_if)

lemma replicate_num: "replicate (numeral k) x = x # replicate (pred_numeral k) x"
  by (simp add: numeral_eq_Suc[of k])

lemma be_bytes_num:
  "be_bytes (numeral k) n = be_bytes (pred_numeral k) (n div 256) @ [n mod 256]"
  by (simp add: numeral_eq_Suc[of k])

lemmas pad_eval = utf8_def utf8_char_def pad_def replicate_num be_bytes_num be_word_def

lemmas sha_eval = compress_def shift_in_def next_word_def add32_eval not32_def shr_def
  bsig0_def bsig1_def ssig0_def ssig1_def ch_def maj_def rotr_def K256_def H0_def
  be_bytes4_def hex_def hex2_def hexdigit_def

lemma hash_empty:
  "hashContent [] = ''e3b0c44298fc1c149afbf4c8996fb92427ae41e4649b934ca495991b7852b855''"
proof -
  have w: "words_of (pad (utf8 [])) = [2147483648, 0, 0, 0, 0, 0, 0, 0, 0, 0, 0, 0, 0, 0, 0, 0]"
    by (simp add: pad_eval)
  have "hex (state_bytes (compress H0 (2147483648, 0, 0, 0, 0, 0, 0, 0, 0, 0, 0, 0, 0, 0, 0, 0)))
      = ''e3b0c44298fc1c149afbf4c8996fb92427ae41e4649b934ca495991b7852b855''"
    by (simp add: sha_eval)
  then show ?thesis
    by (simp only: hashContent_def sha256_def w sha_blocks.simps)
qed

section \<open>Properties of the builder\<close>

text \<open>
  C6. The build of the empty file list is a single directory node with path \<open>root\<close>, no
  children, \<open>isLeaf\<close> false, size 0 and the SHA-256 digest of the empty string as its hash,
  whatever the comparator and the clock are.
\<close>

theorem buildTreeFromFiles_empty:
  "buildTreeFromFiles cmp now [] =
     Inr (MerkleNodeJSON ''e3b0c44298fc1c149afbf4c8996fb92427ae41e4649b934ca495991b7852b855''
            Directory ''root'' 0 (now div 1000) (now div 1000) (Some []) False)"
  by (simp add: buildTreeFromFiles_def hash_empty)

section \<open>Evaluating the examples\<close>

lemma exampleEnv_simps:
  "env_now exampleEnv = 1700000000000"
  "env_localeCompare exampleEnv = caseFoldCompare"
  "env_collectFiles exampleEnv uri = [(''a.txt'', 5, Some ''hello'')]"
  "env_init exampleEnv pid = Response 200 ''OK'' (Parsed ()) None"
  "env_files exampleEnv pid idx = Response 500 ''Internal Server Error''
        (Unparsable ''Unexpected end of JSON input'') None"
  "env_sync1 exampleEnv pid t = Response 200 ''OK''
        (Parsed \<lparr>phase1_changes = None,
                 phase1_summary = Some \<lparr>added = 0, modified = 0, deleted = 2, total = 2\<rparr>,
                 needsFiles = Some []\<rparr>) None"
  by (simp_all add: exampleEnv_def)

lemmas build_eval = buildTreeFromFiles_def buildNestedStructure_def fileNode_def orNow_def
  objSet_def isArrayIndex_def isDigit_def childPath_def hashDirectory_def

lemma example_build_sync:
  "buildTreeFromFiles caseFoldCompare 1700000000000
     [\<lparr>file_path = ''a.txt'', file_content = ''hello'', file_size = Some 5,
       file_lastModified = None\<rparr>] = Inr exampleTree"
  by (simp add: build_eval exampleTree_def)

lemma example_build_ingest:
  "buildTreeFromFiles caseFoldCompare 1700000000000
     [\<lparr>file_path = ''a.txt'', file_content = ''hello'', file_size = Some 5,
       file_lastModified = Some 1700000000000\<rparr>] = Inr exampleTree"
  by (simp add: build_eval exampleTree_def)

section \<open>Properties of the orchestrator\<close>

text \<open>
  C10. A call of \<^verbatim>\<open>ingestFolder\<close> on a service that is not initialized returns
  \<^verbatim>\<open>undefined\<close>, issues no request, fires no event and leaves the state, with its
  current project and its current tree, as it was.
\<close>
theorem ingestFolder_uninitialized:
  "\<not> initialized s \<Longrightarrow> ingestFolder e folderUri s = (None, s, [])"
  by (simp add: ingestFolder_def)

theorem ingestFolder_uninitialized_witness:
  "\<not> initialized initialState \<and>
   ingestFolder exampleEnv ''/home/u/proj'' initialState = (None, initialState, [])"
  using ingestFolder_uninitialized[of initialState exampleEnv "''/home/u/proj''"]
  by (simp add: initialState_def)

text \<open>
  C3, as amended. When the files could be collected, the tree \<open>t\<close> could be built and
  the ok answer to phase 1 has an empty or absent \<^verbatim>\<open>needsFiles\<close>, then \<^verbatim>\<open>syncWithMerkle\<close>
  issues the phase-1 request and nothing else (no phase-2 request, no event at all),
  keeps \<open>t\<close> as the current tree and returns a success with no file processed.
\<close>
theorem syncWithMerkle_no_files_needed:
  assumes "env_collectFiles e folderUri \<noteq> []"
    and "buildTreeFromFiles (env_localeCompare e) (env_now e)
           (readForSync (env_collectFiles e folderUri)) = Inr t"
    and "env_sync1 e pid t = Response status statusText (Parsed r) err"
    and "ok status"
    and "needsFiles r = None \<or> needsFiles r = Some []"
  shows "syncWithMerkle e pid folderUri s =
           (\<lparr>success = True, sync_changes = phase1_changes r, sync_summary = phase1_summary r,
             filesProcessed = Some 0, filesDeleted = Some (deletedOrZero (phase1_summary r)),
             sync_error = None\<rparr>,
            s\<lparr>currentMerkleTree := Some t\<rparr>,
            [HttpMerkleSync pid t None])"
  using assms by (auto simp: syncWithMerkle_def Let_def)

theorem syncWithMerkle_no_files_needed_witness:
  "env_collectFiles exampleEnv ''/home/u/proj'' \<noteq> [] \<and>
   buildTreeFromFiles (env_localeCompare exampleEnv) (env_now exampleEnv)
     (readForSync (env_collectFiles exampleEnv ''/home/u/proj'')) = Inr exampleTree \<and>
   ok 200 \<and>
   syncWithMerkle exampleEnv ''p1'' ''/home/u/proj'' readyState =
     (\<lparr>success = True, sync_changes = None,
       sync_summary = Some \<lparr>added = 0, modified = 0, deleted = 2, total = 2\<rparr>,
       filesProcessed = Some 0, filesDeleted = Some 2, sync_error = None\<rparr>,
      readyState\<lparr>currentMerkleTree := Some exampleTree\<rparr>,
      [HttpMerkleSync ''p1'' exampleTree None])"
  using syncWithMerkle_no_files_needed[of exampleEnv "''/home/u/proj''" exampleTree "''p1''" 200 "''OK''"
      "\<lparr>phase1_changes = None,
        phase1_summary = Some \<lparr>added = 0, modified = 0, deleted = 2, total = 2\<rparr>,
        needsFiles = Some []\<rparr>" None readyState]
  by (simp add: exampleEnv_simps example_build_sync ok_def deletedOrZero_def)

text \<open>
  C3, as stated, fails: on the example, phase 1 answers with two deletions and no file
  needed, and \<^verbatim>\<open>onIngestionComplete\<close> is not fired.
\<close>

theorem syncWithMerkle_fires_no_completion:
  "needsFiles \<lparr>phase1_changes = None,
        phase1_summary = Some \<lparr>added = 0, modified = 0, deleted = 2, total = 2\<rparr>,
        needsFiles = Some []\<rparr> = Some [] \<and>
   firedComplete (snd (snd (syncWithMerkle exampleEnv ''p1'' ''/home/u/proj'' readyState))) = []"
  by (simp add: syncWithMerkle_def exampleEnv_simps example_build_sync ok_def Let_def)


end
